theory Spec2Isabelle
  imports Main
begin

section \<open>Strings\<close>

text \<open>
  Strings are lists of 8-bit characters. \<open>toLowerCase\<close> maps the ASCII capitals
  \<open>A\<close>..\<open>Z\<close> to \<open>a\<close>..\<open>z\<close> and leaves every other character as it is; the
  keyword lists of the score function are plain ASCII.
\<close>

definition lower_char :: "char \<Rightarrow> char" where
  "lower_char c =
     (let n = (of_char c :: nat)
      in if 65 \<le> n \<and> n \<le> 90 then char_of (n + 32) else c)"

definition toLowerCase :: "string \<Rightarrow> string" where
  "toLowerCase s = map lower_char s"

text \<open>\<open>s.startsWith(k)\<close>: \<open>k\<close> is read off the front of \<open>s\<close>.\<close>

fun startsWith :: "string \<Rightarrow> string \<Rightarrow> bool" where
  "startsWith s [] = True"
| "startsWith [] (k # ks) = False"
| "startsWith (c # cs) (k # ks) = (c = k \<and> startsWith cs ks)"

text \<open>\<open>s.includes(k)\<close>: scan the start positions of \<open>s\<close> from left to right.\<close>

fun str_includes :: "string \<Rightarrow> string \<Rightarrow> bool" where
  "str_includes [] k = startsWith [] k"
| "str_includes (c # cs) k = (if startsWith (c # cs) k then True else str_includes cs k)"

text \<open>\<open>xs.some(p)\<close>\<close>

fun some :: "('a \<Rightarrow> bool) \<Rightarrow> 'a list \<Rightarrow> bool" where
  "some p [] = False"
| "some p (x # xs) = (if p x then True else some p xs)"

section \<open>The score function\<close>

definition highRiskKeywords :: "string list" where
  "highRiskKeywords = [''fraud'', ''theft'', ''violence'', ''criminal'', ''scam'']"

definition mediumRiskKeywords :: "string list" where
  "mediumRiskKeywords = [''dispute'', ''complaint'', ''unpaid'', ''breach'']"

definition calculateBlacklistScore :: "string \<Rightarrow> bool \<Rightarrow> bool \<Rightarrow> int" where
  "calculateBlacklistScore reason hasDocuments hasFaceImage =
     (let baseScore = 50;
          reasonLower = toLowerCase reason;
          baseScore =
            (if some (\<lambda>keyword. str_includes reasonLower keyword) highRiskKeywords
             then baseScore + 30
             else if some (\<lambda>keyword. str_includes reasonLower keyword) mediumRiskKeywords
             then baseScore + 15
             else baseScore);
          baseScore = (if hasDocuments then baseScore + 10 else baseScore);
          baseScore = (if hasFaceImage then baseScore + 10 else baseScore)
      in min baseScore 100)"

subsection \<open>The reference definition of the specification\<close>

text \<open>
  The specification's \<open>computeScore\<close>, written from its words: \<open>k\<close> occurs in
  \<open>s\<close> as a substring when \<open>s\<close> splits into a part before, \<open>k\<close>, and a part after.
\<close>

definition occurs_in :: "string \<Rightarrow> string \<Rightarrow> bool" where
  "occurs_in k s = (\<exists>before after. s = before @ k @ after)"

definition spec_high_risk :: "string \<Rightarrow> bool" where
  "spec_high_risk reason =
     (occurs_in ''fraud'' (toLowerCase reason) \<or> occurs_in ''theft'' (toLowerCase reason) \<or>
      occurs_in ''violence'' (toLowerCase reason) \<or> occurs_in ''criminal'' (toLowerCase reason) \<or>
      occurs_in ''scam'' (toLowerCase reason))"

definition spec_medium_risk :: "string \<Rightarrow> bool" where
  "spec_medium_risk reason =
     (occurs_in ''dispute'' (toLowerCase reason) \<or> occurs_in ''complaint'' (toLowerCase reason) \<or>
      occurs_in ''unpaid'' (toLowerCase reason) \<or> occurs_in ''breach'' (toLowerCase reason))"

definition computeScore_spec :: "string \<Rightarrow> bool \<Rightarrow> bool \<Rightarrow> int" where
  "computeScore_spec reason hasDocuments hasFaceImage =
     min ((50 :: int)
          + (if spec_high_risk reason then 30 else if spec_medium_risk reason then 15 else 0)
          + (if hasDocuments then 10 else 0)
          + (if hasFaceImage then 10 else 0))
         100"

section \<open>The record store\<close>

text \<open>
  The tables of the relational store, with the columns the blacklist handlers read or write.
  A table is the list of its rows in storage order. Identifiers and scores are integers,
  timestamps are milliseconds; a nullable column is an \<open>option\<close>.
\<close>

datatype blacklist_status = Active | Inactive | Pending | Resolved

record user_row =
  user_ident :: int
  is_admin :: bool

record company_row =
  company_ident :: int
  company_user_id :: int

record blacklist_entry =
  entry_id :: int
  user_id :: int
  company_id :: int
  first_name :: string
  last_name :: string
  id_number :: string
  phone :: "string option"
  email :: "string option"
  face_image_url :: "string option"
  id_document_urls :: "string list"
  blacklist_score :: int
  reason :: string
  status :: blacklist_status
  is_blacklisted :: bool
  created_at :: int
  updated_at :: int

record activity_values =
  av_user_id :: int
  av_action :: string
  av_resource_type :: string
  av_resource_id :: "int option"
  av_details :: "string option"
  av_ip_address :: "string option"
  av_user_agent :: "string option"

record db =
  usersTable :: "user_row list"
  companiesTable :: "company_row list"
  blacklistEntriesTable :: "blacklist_entry list"
  activityLogsTable :: "activity_values list"
  blacklist_entries_id_seq :: int

text \<open>
  The errors the handlers throw: \<open>NoCompanyError\<close> is "User company not found for user
  ID", \<open>NotFoundOrDenied\<close> is "Blacklist entry not found or access denied",
  \<open>UpdateFailed\<close> and \<open>ToggleFailed\<close> are "Failed to update blacklist entry" and
  "Failed to toggle blacklist status", \<open>StorageError\<close> is a statement the store rejects.
\<close>

datatype error = NoCompanyError | NotFoundOrDenied | UpdateFailed | ToggleFailed | StorageError

text \<open>
  The insert into the activity-log table is the one statement whose outcome is left open:
  a sink takes the table and the values of the new row, and either throws or returns the
  table after the insert.
\<close>

type_synonym activity_sink = "activity_values list \<Rightarrow> activity_values \<Rightarrow> error + activity_values list"

definition insertActivityLog :: activity_sink where
  "insertActivityLog logs values = Inr (logs @ [values])"

definition throwingSink :: activity_sink where
  "throwingSink logs values = Inl StorageError"

section \<open>Inputs of the handlers\<close>

text \<open>
  An optional key of an input object is an \<open>option\<close> (\<open>None\<close> is \<open>undefined\<close>); a key
  that is optional and nullable has three states: \<open>None\<close> is absent, \<open>Some None\<close> is an
  explicit \<open>null\<close>, \<open>Some (Some v)\<close> is a value.
\<close>

record create_input =
  c_first_name :: string
  c_last_name :: string
  c_id_number :: string
  c_phone :: "string option"
  c_email :: "string option"
  c_face_image_url :: "string option"
  c_id_document_urls :: "string list"
  c_reason :: string
  c_is_blacklisted :: bool

record update_input =
  u_id :: int
  u_first_name :: "string option"
  u_last_name :: "string option"
  u_id_number :: "string option"
  u_phone :: "string option option"
  u_email :: "string option option"
  u_face_image_url :: "string option option"
  u_id_document_urls :: "string list option"
  u_reason :: "string option"
  u_status :: "blacklist_status option"
  u_is_blacklisted :: "bool option"

record blacklist_filter =
  f_status :: "blacklist_status option"
  f_company_id :: "int option"
  f_search :: "string option"
  f_date_from :: "int option"
  f_date_to :: "int option"
  f_min_score :: "int option"
  f_max_score :: "int option"

record pagination =
  page :: int
  limit :: int

record list_result =
  entries :: "blacklist_entry list"
  total :: int

text \<open>
  The field \<open>is_blacklisted: z.boolean().default(true)\<close> of
  \<open>createBlacklistEntrySchema\<close>: a submission without the key is parsed to \<open>true\<close>.
\<close>

fun createBlacklistEntrySchema_is_blacklisted :: "bool option \<Rightarrow> bool" where
  "createBlacklistEntrySchema_is_blacklisted None = True"
| "createBlacklistEntrySchema_is_blacklisted (Some v) = v"

text \<open>\<open>x !== undefined\<close>\<close>

fun is_defined :: "'a option \<Rightarrow> bool" where
  "is_defined None = False"
| "is_defined (Some v) = True"

text \<open>\<open>Boolean(s)\<close> of a nullable string: \<open>null\<close> and the empty string are falsy.\<close>

fun Boolean :: "string option \<Rightarrow> bool" where
  "Boolean None = False"
| "Boolean (Some s) = (0 < length s)"

text \<open>
  \<open>x ?? d\<close>: the default is taken when \<open>x\<close> is \<open>undefined\<close>, and also when it is
  \<open>null\<close>.
\<close>

fun nullish :: "'a option \<Rightarrow> 'a \<Rightarrow> 'a" where
  "nullish None d = d"
| "nullish (Some v) d = v"

fun nullish_nullable :: "'a option option \<Rightarrow> 'a option \<Rightarrow> 'a option" where
  "nullish_nullable None d = d"
| "nullish_nullable (Some None) d = d"
| "nullish_nullable (Some (Some v)) d = Some v"

section \<open>SQL conditions\<close>

text \<open>
  \<open>LIKE\<close> of the store (PostgreSQL): the match is on the characters as they are, so it
  distinguishes letter case; in the pattern \<open>%\<close> stands for any run of characters, \<open>_\<close>
  for any one character, and a backslash takes the next pattern character literally.
\<close>

fun like_match :: "string \<Rightarrow> string \<Rightarrow> bool" where
  "like_match s [] = (s = [])"
| "like_match s (p # ps) =
     (if p = CHR ''%'' then
        (if like_match s ps then True
         else (case s of [] \<Rightarrow> False | c # cs \<Rightarrow> like_match cs (p # ps)))
      else if p = CHR ''_'' then
        (case s of [] \<Rightarrow> False | c # cs \<Rightarrow> like_match cs ps)
      else if p = CHR 0x5C then
        (case ps of
           [] \<Rightarrow> False
         | q # qs \<Rightarrow> (case s of [] \<Rightarrow> False | c # cs \<Rightarrow> c = q \<and> like_match cs qs))
      else
        (case s of [] \<Rightarrow> False | c # cs \<Rightarrow> c = p \<and> like_match cs ps))"

text \<open>\<open>like(column, pattern)\<close>; on a nullable column a \<open>NULL\<close> never matches.\<close>

definition like :: "string \<Rightarrow> string \<Rightarrow> bool" where
  "like column pattern = like_match column pattern"

fun like_nullable :: "string option \<Rightarrow> string \<Rightarrow> bool" where
  "like_nullable None pattern = False"
| "like_nullable (Some column) pattern = like_match column pattern"

text \<open>\<open>and(...conditions)\<close>: a row passes when it passes every condition.\<close>

fun and_all :: "('a \<Rightarrow> bool) list \<Rightarrow> 'a \<Rightarrow> bool" where
  "and_all [] row = True"
| "and_all (c # cs) row = (if c row then and_all cs row else False)"

section \<open>The blacklist handlers\<close>

definition getUserCompanyId :: "db \<Rightarrow> int \<Rightarrow> error + int" where
  "getUserCompanyId d userId =
     (case filter (\<lambda>c. company_user_id c = userId) (companiesTable d) of
        [] \<Rightarrow> Inl NoCompanyError
      | company # rest \<Rightarrow> Inr (company_ident company))"

text \<open>The \<open>catch\<close> of \<open>logActivity\<close> swallows what the sink throws.\<close>

definition logActivity ::
  "activity_sink \<Rightarrow> db \<Rightarrow> int \<Rightarrow> string \<Rightarrow> int option \<Rightarrow> string option \<Rightarrow> db" where
  "logActivity sink d userId action resourceId details =
     (case sink (activityLogsTable d)
             \<lparr>av_user_id = userId, av_action = action, av_resource_type = ''blacklist_entry'',
              av_resource_id = resourceId, av_details = details,
              av_ip_address = None, av_user_agent = None\<rparr> of
        Inl err \<Rightarrow> d
      | Inr logs \<Rightarrow> d\<lparr>activityLogsTable := logs\<rparr>)"

text \<open>
  \<open>createBlacklistEntry\<close>; \<open>now\<close> is the clock of the store, which stamps
  \<open>created_at\<close> and \<open>updated_at\<close>; the identifier comes from the table's sequence.
\<close>

definition createBlacklistEntry ::
  "activity_sink \<Rightarrow> int \<Rightarrow> db \<Rightarrow> int \<Rightarrow> create_input \<Rightarrow> (error + blacklist_entry) \<times> db" where
  "createBlacklistEntry sink now d userId input =
     (case getUserCompanyId d userId of
        Inl err \<Rightarrow> (Inl err, d)
      | Inr companyId \<Rightarrow>
          (let blacklistScore =
                 calculateBlacklistScore (c_reason input)
                   (0 < length (c_id_document_urls input))
                   (Boolean (c_face_image_url input));
               entry =
                 \<lparr>entry_id = blacklist_entries_id_seq d,
                  user_id = userId,
                  company_id = companyId,
                  first_name = c_first_name input,
                  last_name = c_last_name input,
                  id_number = c_id_number input,
                  phone = c_phone input,
                  email = c_email input,
                  face_image_url = c_face_image_url input,
                  id_document_urls = c_id_document_urls input,
                  blacklist_score = blacklistScore,
                  reason = c_reason input,
                  status = Active,
                  is_blacklisted = c_is_blacklisted input,
                  created_at = now,
                  updated_at = now\<rparr>;
               d1 = d\<lparr>blacklistEntriesTable := blacklistEntriesTable d @ [entry],
                      blacklist_entries_id_seq := blacklist_entries_id_seq d + 1\<rparr>;
               d2 = logActivity sink d1 userId ''created'' (Some (entry_id entry))
                      (Some (''Created blacklist entry for '' @ c_first_name input @ '' ''
                             @ c_last_name input))
           in (Inr entry, d2)))"

text \<open>
  The conditions of \<open>getBlacklistEntries\<close>, pushed in the order of the source: the
  company, then each filter that is set. An empty search string is falsy and adds nothing.
\<close>

definition conditions :: "int \<Rightarrow> blacklist_filter \<Rightarrow> (blacklist_entry \<Rightarrow> bool) list" where
  "conditions companyId filters =
     [\<lambda>row. company_id row = companyId]
     @ (case f_status filters of
          None \<Rightarrow> []
        | Some st \<Rightarrow> [\<lambda>row. status row = st])
     @ (case f_search filters of
          None \<Rightarrow> []
        | Some search \<Rightarrow>
            (if search = [] then []
             else (let searchPattern = ''%'' @ search @ ''%''
                   in [\<lambda>row. like (first_name row) searchPattern
                             \<or> like (last_name row) searchPattern
                             \<or> like (id_number row) searchPattern
                             \<or> like_nullable (email row) searchPattern
                             \<or> like (reason row) searchPattern])))
     @ (case f_date_from filters of
          Some date_from \<Rightarrow>
            (case f_date_to filters of
               Some date_to \<Rightarrow> [\<lambda>row. date_from \<le> created_at row \<and> created_at row \<le> date_to]
             | None \<Rightarrow> [\<lambda>row. date_from \<le> created_at row])
        | None \<Rightarrow>
            (case f_date_to filters of
               Some date_to \<Rightarrow> [\<lambda>row. created_at row \<le> date_to]
             | None \<Rightarrow> []))
     @ (case f_min_score filters of
          None \<Rightarrow> []
        | Some min_score \<Rightarrow> [\<lambda>row. min_score \<le> blacklist_score row])
     @ (case f_max_score filters of
          None \<Rightarrow> []
        | Some max_score \<Rightarrow> [\<lambda>row. blacklist_score row \<le> max_score])"

text \<open>
  \<open>getBlacklistEntries\<close>: rows are ordered by \<open>created_at\<close> descending (rows with equal
  stamps stay in storage order), then cut by limit and offset; the store rejects a negative
  limit or offset. The count is over the same condition without the cut.
\<close>

definition getBlacklistEntries ::
  "db \<Rightarrow> int \<Rightarrow> blacklist_filter \<Rightarrow> pagination \<Rightarrow> error + list_result" where
  "getBlacklistEntries d userId filters paging =
     (case getUserCompanyId d userId of
        Inl err \<Rightarrow> Inl err
      | Inr companyId \<Rightarrow>
          (let whereCondition = and_all (conditions companyId filters);
               filtered = filter whereCondition (blacklistEntriesTable d);
               ordered = sort_key (\<lambda>row. - created_at row) filtered;
               offset = (page paging - 1) * limit paging
           in if limit paging < 0 then Inl StorageError
              else if offset < 0 then Inl StorageError
              else Inr \<lparr>entries = take (nat (limit paging)) (drop (nat offset) ordered),
                        total = int (length filtered)\<rparr>))"

definition getBlacklistEntry :: "db \<Rightarrow> int \<Rightarrow> int \<Rightarrow> error + blacklist_entry option" where
  "getBlacklistEntry d userId entryId =
     (case getUserCompanyId d userId of
        Inl err \<Rightarrow> Inl err
      | Inr companyId \<Rightarrow>
          (case filter (\<lambda>row. entry_id row = entryId \<and> company_id row = companyId)
                  (blacklistEntriesTable d) of
             [] \<Rightarrow> Inr None
           | first # rest \<Rightarrow> Inr (Some first)))"

text \<open>
  The \<open>updateData\<close> object of \<open>updateBlacklistEntry\<close>, as the assignment it makes to a
  row: \<open>updated_at\<close> always, each column whose key is defined in the input, and the
  recomputed score when \<open>reason\<close>, \<open>id_document_urls\<close> or \<open>face_image_url\<close> is defined.
\<close>

definition updateData ::
  "int \<Rightarrow> update_input \<Rightarrow> blacklist_entry \<Rightarrow> blacklist_entry \<Rightarrow> blacklist_entry" where
  "updateData now input existingEntry row =
     (let row = row\<lparr>updated_at := now\<rparr>;
          row = (case u_first_name input of None \<Rightarrow> row | Some v \<Rightarrow> row\<lparr>first_name := v\<rparr>);
          row = (case u_last_name input of None \<Rightarrow> row | Some v \<Rightarrow> row\<lparr>last_name := v\<rparr>);
          row = (case u_id_number input of None \<Rightarrow> row | Some v \<Rightarrow> row\<lparr>id_number := v\<rparr>);
          row = (case u_phone input of None \<Rightarrow> row | Some v \<Rightarrow> row\<lparr>phone := v\<rparr>);
          row = (case u_email input of None \<Rightarrow> row | Some v \<Rightarrow> row\<lparr>email := v\<rparr>);
          row = (case u_face_image_url input of
                   None \<Rightarrow> row | Some v \<Rightarrow> row\<lparr>face_image_url := v\<rparr>);
          row = (case u_id_document_urls input of
                   None \<Rightarrow> row | Some v \<Rightarrow> row\<lparr>id_document_urls := v\<rparr>);
          row = (case u_reason input of None \<Rightarrow> row | Some v \<Rightarrow> row\<lparr>reason := v\<rparr>);
          row = (case u_status input of None \<Rightarrow> row | Some v \<Rightarrow> row\<lparr>status := v\<rparr>);
          row = (case u_is_blacklisted input of
                   None \<Rightarrow> row | Some v \<Rightarrow> row\<lparr>is_blacklisted := v\<rparr>)
      in if is_defined (u_reason input) \<or> is_defined (u_id_document_urls input)
            \<or> is_defined (u_face_image_url input)
         then (let reason' = nullish (u_reason input) (reason existingEntry);
                   documentUrls =
                     nullish (u_id_document_urls input) (id_document_urls existingEntry);
                   faceImageUrl =
                     nullish_nullable (u_face_image_url input) (face_image_url existingEntry)
               in row\<lparr>blacklist_score :=
                        calculateBlacklistScore reason' (0 < length documentUrls)
                          (Boolean faceImageUrl)\<rparr>)
         else row)"

definition updateBlacklistEntry ::
  "activity_sink \<Rightarrow> int \<Rightarrow> db \<Rightarrow> int \<Rightarrow> update_input \<Rightarrow> (error + blacklist_entry) \<times> db" where
  "updateBlacklistEntry sink now d userId input =
     (case getUserCompanyId d userId of
        Inl err \<Rightarrow> (Inl err, d)
      | Inr companyId \<Rightarrow>
          (case getBlacklistEntry d userId (u_id input) of
             Inl err \<Rightarrow> (Inl err, d)
           | Inr None \<Rightarrow> (Inl NotFoundOrDenied, d)
           | Inr (Some existingEntry) \<Rightarrow>
               (let hit = (\<lambda>row. entry_id row = u_id input \<and> company_id row = companyId);
                    result = map (updateData now input existingEntry)
                               (filter hit (blacklistEntriesTable d));
                    d1 = d\<lparr>blacklistEntriesTable :=
                             map (\<lambda>row. if hit row then updateData now input existingEntry row
                                        else row)
                               (blacklistEntriesTable d)\<rparr>
                in (case result of
                      [] \<Rightarrow> (Inl UpdateFailed, d1)
                    | updatedEntry # rest \<Rightarrow>
                        (Inr updatedEntry,
                         logActivity sink d1 userId ''updated'' (Some (u_id input))
                           (Some (''Updated blacklist entry for '' @ first_name updatedEntry
                                  @ '' '' @ last_name updatedEntry)))))))"

record delete_result =
  success :: bool

definition deleteBlacklistEntry ::
  "activity_sink \<Rightarrow> db \<Rightarrow> int \<Rightarrow> int \<Rightarrow> (error + delete_result) \<times> db" where
  "deleteBlacklistEntry sink d userId entryId =
     (case getUserCompanyId d userId of
        Inl err \<Rightarrow> (Inl err, d)
      | Inr companyId \<Rightarrow>
          (case getBlacklistEntry d userId entryId of
             Inl err \<Rightarrow> (Inl err, d)
           | Inr None \<Rightarrow> (Inl NotFoundOrDenied, d)
           | Inr (Some existingEntry) \<Rightarrow>
               (let hit = (\<lambda>row. entry_id row = entryId \<and> company_id row = companyId);
                    d1 = d\<lparr>blacklistEntriesTable :=
                             filter (\<lambda>row. \<not> hit row) (blacklistEntriesTable d)\<rparr>
                in (Inr \<lparr>success = True\<rparr>,
                    logActivity sink d1 userId ''deleted'' (Some entryId)
                      (Some (''Deleted blacklist entry for '' @ first_name existingEntry
                             @ '' '' @ last_name existingEntry))))))"

definition toggleBlacklistStatus ::
  "activity_sink \<Rightarrow> int \<Rightarrow> db \<Rightarrow> int \<Rightarrow> int \<Rightarrow> bool \<Rightarrow> (error + blacklist_entry) \<times> db" where
  "toggleBlacklistStatus sink now d userId entryId isBlacklisted =
     (case getUserCompanyId d userId of
        Inl err \<Rightarrow> (Inl err, d)
      | Inr companyId \<Rightarrow>
          (case getBlacklistEntry d userId entryId of
             Inl err \<Rightarrow> (Inl err, d)
           | Inr None \<Rightarrow> (Inl NotFoundOrDenied, d)
           | Inr (Some existingEntry) \<Rightarrow>
               (let newStatus = (if isBlacklisted then Active else Inactive);
                    hit = (\<lambda>row. entry_id row = entryId \<and> company_id row = companyId);
                    assign = (\<lambda>row. row\<lparr>is_blacklisted := isBlacklisted, status := newStatus,
                                         updated_at := now\<rparr>);
                    result = map assign (filter hit (blacklistEntriesTable d));
                    d1 = d\<lparr>blacklistEntriesTable :=
                             map (\<lambda>row. if hit row then assign row else row)
                               (blacklistEntriesTable d)\<rparr>
                in (case result of
                      [] \<Rightarrow> (Inl ToggleFailed, d1)
                    | updatedEntry # rest \<Rightarrow>
                        (Inr updatedEntry,
                         logActivity sink d1 userId
                           (if isBlacklisted then ''blacklisted'' else ''unblacklisted'')
                           (Some entryId)
                           (Some ((if isBlacklisted then ''Blacklisted'' else ''Unblacklisted'')
                                  @ '' '' @ first_name updatedEntry
                                  @ '' '' @ last_name updatedEntry)))))))"

section \<open>Example stores\<close>

text \<open>
  Two tenants, each with one user and one entry, and two administrators: one with a company
  of their own and one with none.
\<close>

definition entryA :: blacklist_entry where
  "entryA =
     \<lparr>entry_id = 1, user_id = 1, company_id = 10,
      first_name = ''Jane'', last_name = ''Doe'', id_number = ''123456789'',
      phone = Some ''0987654321'', email = Some ''jane.doe@example.com'',
      face_image_url = Some ''https://example.com/face.jpg'', id_document_urls = [],
      blacklist_score = 90, reason = ''Fraud'', status = Active, is_blacklisted = True,
      created_at = 1000, updated_at = 1000\<rparr>"

definition entryB :: blacklist_entry where
  "entryB =
     \<lparr>entry_id = 2, user_id = 2, company_id = 20,
      first_name = ''Bob'', last_name = ''Wilson'', id_number = ''987654321'',
      phone = None, email = None,
      face_image_url = None, id_document_urls = [],
      blacklist_score = 65, reason = ''Contract dispute'', status = Active,
      is_blacklisted = True, created_at = 2000, updated_at = 2000\<rparr>"

definition exampleDb :: db where
  "exampleDb =
     \<lparr>usersTable =
        [\<lparr>user_ident = 1, is_admin = False\<rparr>, \<lparr>user_ident = 2, is_admin = False\<rparr>,
         \<lparr>user_ident = 3, is_admin = True\<rparr>, \<lparr>user_ident = 4, is_admin = True\<rparr>],
      companiesTable =
        [\<lparr>company_ident = 10, company_user_id = 1\<rparr>,
         \<lparr>company_ident = 20, company_user_id = 2\<rparr>,
         \<lparr>company_ident = 30, company_user_id = 3\<rparr>],
      blacklistEntriesTable = [entryA, entryB],
      activityLogsTable = [],
      blacklist_entries_id_seq = 3\<rparr>"

text \<open>The filter object \<open>{}\<close>, the first page, and the update input \<open>{id}\<close>.\<close>

definition no_filter :: blacklist_filter where
  "no_filter =
     \<lparr>f_status = None, f_company_id = None, f_search = None, f_date_from = None,
      f_date_to = None, f_min_score = None, f_max_score = None\<rparr>"

definition first_page :: pagination where
  "first_page = \<lparr>page = 1, limit = 20\<rparr>"

definition empty_patch :: "int \<Rightarrow> update_input" where
  "empty_patch entryId =
     \<lparr>u_id = entryId, u_first_name = None, u_last_name = None, u_id_number = None,
      u_phone = None, u_email = None, u_face_image_url = None, u_id_document_urls = None,
      u_reason = None, u_status = None, u_is_blacklisted = None\<rparr>"

text \<open>A submission that is not blacklisted, with a medium-risk reason and no evidence.\<close>

definition exampleInput :: create_input where
  "exampleInput =
     \<lparr>c_first_name = ''Carl'', c_last_name = ''Moss'', c_id_number = ''555'',
      c_phone = None, c_email = None, c_face_image_url = None, c_id_document_urls = [],
      c_reason = ''Unpaid invoice dispute'', c_is_blacklisted = False\<rparr>"

section \<open>Free-text search, in the specification's words\<close>




section \<open>Substring search\<close>

lemma startsWith_iff: "startsWith s k \<longleftrightarrow> (\<exists>after. s = k @ after)"
  by (induction s k rule: startsWith.induct) auto

lemma includes_iff: "str_includes s k \<longleftrightarrow> occurs_in k s"
proof (induction s)
  case Nil
  show ?case by (auto simp: startsWith_iff occurs_in_def)
next
  case (Cons c cs)
  have "occurs_in k (c # cs) \<longleftrightarrow> (\<exists>after. c # cs = k @ after) \<or> occurs_in k cs"
    by (auto simp: occurs_in_def Cons_eq_append_conv)
  with Cons show ?case by (simp add: startsWith_iff)
qed

lemma high_risk_iff:
  "some (\<lambda>keyword. str_includes (toLowerCase r) keyword) highRiskKeywords
     \<longleftrightarrow> spec_high_risk r"
  by (simp add: highRiskKeywords_def spec_high_risk_def includes_iff)

lemma medium_risk_iff:
  "some (\<lambda>keyword. str_includes (toLowerCase r) keyword) mediumRiskKeywords
     \<longleftrightarrow> spec_medium_risk r"
  by (simp add: mediumRiskKeywords_def spec_medium_risk_def includes_iff)

text \<open>
  C1: the score function of the source equals the specification's reference definition on
  every input: base 50; plus 30 when the lowercased reason contains a high-risk keyword, and
  then no medium-risk check; otherwise plus 15 when it contains a medium-risk keyword; plus
  10 for documents; plus 10 for a face image; at most 100.
\<close>

theorem calculateBlacklistScore_refines_spec:
  "calculateBlacklistScore r hasDocuments hasFaceImage
     = computeScore_spec r hasDocuments hasFaceImage"
  unfolding calculateBlacklistScore_def computeScore_spec_def Let_def
    high_risk_iff medium_risk_iff
  by simp

theorem calculateBlacklistScore_refines_spec_witness:
  "computeScore_spec ''Fraud and unpaid rent'' False False = 80
   \<and> computeScore_spec ''Unpaid rent'' True False = 75"
proof -
  have "calculateBlacklistScore ''Fraud and unpaid rent'' False False = 80"
    by code_simp
  moreover have "calculateBlacklistScore ''Unpaid rent'' True False = 75"
    by code_simp
  ultimately show ?thesis
    using calculateBlacklistScore_refines_spec [of "''Fraud and unpaid rent''" False False]
      calculateBlacklistScore_refines_spec [of "''Unpaid rent''" True False]
    by simp
qed

section \<open>Score ranges\<close>

lemma medium_risk_score:
  assumes "some (str_includes (toLowerCase r)) mediumRiskKeywords"
    and "\<not> some (str_includes (toLowerCase r)) highRiskKeywords"
  shows "calculateBlacklistScore r hasDocuments hasFaceImage
           = 65 + (if hasDocuments then 10 else 0) + (if hasFaceImage then 10 else 0)"
  using assms by (simp add: calculateBlacklistScore_def)

lemma high_risk_score:
  assumes "some (str_includes (toLowerCase r)) highRiskKeywords"
  shows "calculateBlacklistScore r hasDocuments hasFaceImage
           = 80 + (if hasDocuments then 10 else 0) + (if hasFaceImage then 10 else 0)"
  using assms by (simp add: calculateBlacklistScore_def)

text \<open>
  C5, as stated, fails: the reason "unpaid" contains a medium-risk keyword and no high-risk
  keyword, and with documents and a face image its score is 85, above 75.
\<close>

theorem medium_risk_score_above_75:
  "some (str_includes (toLowerCase ''unpaid'')) mediumRiskKeywords
   \<and> \<not> some (str_includes (toLowerCase ''unpaid'')) highRiskKeywords
   \<and> calculateBlacklistScore ''unpaid'' True True = 85
   \<and> \<not> (65 \<le> calculateBlacklistScore ''unpaid'' True True
          \<and> calculateBlacklistScore ''unpaid'' True True \<le> 75)"
  by code_simp

text \<open>
  C5, amended: for every reason that contains a medium-risk keyword and no high-risk keyword,
  and every combination of the two evidence flags, the score is 65 plus 10 for each flag
  that is set, so it lies in [65, 85] (65 with no flag, 75 with one, 85 with both), and it is
  strictly less than the score of any high-risk reason with the same flags.
\<close>

theorem medium_risk_score_range:
  assumes "some (str_includes (toLowerCase r)) mediumRiskKeywords"
    and "\<not> some (str_includes (toLowerCase r)) highRiskKeywords"
    and "some (str_includes (toLowerCase h)) highRiskKeywords"
  shows "calculateBlacklistScore r hasDocuments hasFaceImage
           = 65 + (if hasDocuments then 10 else 0) + (if hasFaceImage then 10 else 0)
       \<and> 65 \<le> calculateBlacklistScore r hasDocuments hasFaceImage
       \<and> calculateBlacklistScore r hasDocuments hasFaceImage \<le> 85
       \<and> calculateBlacklistScore r hasDocuments hasFaceImage
           < calculateBlacklistScore h hasDocuments hasFaceImage"
  unfolding medium_risk_score [OF assms(1,2)] high_risk_score [OF assms(3)]
  by simp

theorem medium_risk_score_range_witness:
  "some (str_includes (toLowerCase ''Unpaid invoice dispute'')) mediumRiskKeywords
   \<and> \<not> some (str_includes (toLowerCase ''Unpaid invoice dispute'')) highRiskKeywords
   \<and> some (str_includes (toLowerCase ''Fraud and theft'')) highRiskKeywords
   \<and> calculateBlacklistScore ''Unpaid invoice dispute'' True False = 75
   \<and> calculateBlacklistScore ''Unpaid invoice dispute'' True False
       < calculateBlacklistScore ''Fraud and theft'' True False"
proof -
  have m: "some (str_includes (toLowerCase ''Unpaid invoice dispute'')) mediumRiskKeywords"
    by code_simp
  have n: "\<not> some (str_includes (toLowerCase ''Unpaid invoice dispute'')) highRiskKeywords"
    by code_simp
  have h: "some (str_includes (toLowerCase ''Fraud and theft'')) highRiskKeywords"
    by code_simp
  show ?thesis
    using medium_risk_score_range [OF m n h, of True False] m n h by simp
qed

section \<open>Scope of the handlers\<close>

lemma logActivity_tables:
  "blacklistEntriesTable (logActivity sink d userId act resourceId details)
     = blacklistEntriesTable d"
  "companiesTable (logActivity sink d userId act resourceId details) = companiesTable d"
  "usersTable (logActivity sink d userId act resourceId details) = usersTable d"
  "blacklist_entries_id_seq (logActivity sink d userId act resourceId details)
     = blacklist_entries_id_seq d"
  by (simp_all add: logActivity_def split: sum.split)

lemma getBlacklistEntry_none:
  assumes "getUserCompanyId d userId = Inr companyId"
    and "\<forall>row \<in> set (blacklistEntriesTable d).
           entry_id row = entryId \<longrightarrow> company_id row \<noteq> companyId"
  shows "getBlacklistEntry d userId entryId = Inr None"
proof -
  have "filter (\<lambda>row. entry_id row = entryId \<and> company_id row = companyId)
          (blacklistEntriesTable d) = []"
    using assms(2) by (auto simp: filter_empty_conv)
  then show ?thesis using assms(1) by (simp add: getBlacklistEntry_def)
qed

lemma getBlacklistEntry_some:
  assumes "getBlacklistEntry d userId entryId = Inr (Some e)"
  shows "\<exists>companyId rest. getUserCompanyId d userId = Inr companyId
     \<and> filter (\<lambda>row. entry_id row = entryId \<and> company_id row = companyId)
          (blacklistEntriesTable d) = e # rest
     \<and> entry_id e = entryId \<and> company_id e = companyId
     \<and> e \<in> set (blacklistEntriesTable d)"
proof -
  from assms obtain companyId where c: "getUserCompanyId d userId = Inr companyId"
    by (auto simp: getBlacklistEntry_def split: sum.splits)
  with assms obtain rest where
    f: "filter (\<lambda>row. entry_id row = entryId \<and> company_id row = companyId)
          (blacklistEntriesTable d) = e # rest"
    by (auto simp: getBlacklistEntry_def split: list.splits)
  have "e \<in> set (filter (\<lambda>row. entry_id row = entryId \<and> company_id row = companyId)
                  (blacklistEntriesTable d))"
    by (simp add: f)
  then have "entry_id e = entryId \<and> company_id e = companyId
             \<and> e \<in> set (blacklistEntriesTable d)"
    by simp
  with c f show ?thesis by blast
qed

text \<open>With a primary key on the identifier, an entry of another company is the only row
  with its identifier, so no row with that identifier is in the caller's company.\<close>

lemma other_company_no_hit:
  assumes "distinct (map entry_id (blacklistEntriesTable d))"
    and "e \<in> set (blacklistEntriesTable d)" and "company_id e \<noteq> companyId"
  shows "\<forall>row \<in> set (blacklistEntriesTable d).
           entry_id row = entry_id e \<longrightarrow> company_id row \<noteq> companyId"
proof (intro ballI impI)
  fix row assume "row \<in> set (blacklistEntriesTable d)" "entry_id row = entry_id e"
  with assms(1,2) have "row = e"
    by (meson distinct_map inj_onD)
  with assms(3) show "company_id row \<noteq> companyId" by simp
qed

lemma delete_denied:
  assumes "getUserCompanyId d userId = Inr companyId"
    and "\<forall>row \<in> set (blacklistEntriesTable d).
           entry_id row = entryId \<longrightarrow> company_id row \<noteq> companyId"
  shows "deleteBlacklistEntry sink d userId entryId = (Inl NotFoundOrDenied, d)"
  using assms(1) getBlacklistEntry_none [OF assms]
  by (simp add: deleteBlacklistEntry_def)

lemma update_denied:
  assumes "getUserCompanyId d userId = Inr companyId"
    and "\<forall>row \<in> set (blacklistEntriesTable d).
           entry_id row = u_id input \<longrightarrow> company_id row \<noteq> companyId"
  shows "updateBlacklistEntry sink now d userId input = (Inl NotFoundOrDenied, d)"
  using assms(1) getBlacklistEntry_none [OF assms]
  by (simp add: updateBlacklistEntry_def)

lemma toggle_denied:
  assumes "getUserCompanyId d userId = Inr companyId"
    and "\<forall>row \<in> set (blacklistEntriesTable d).
           entry_id row = entryId \<longrightarrow> company_id row \<noteq> companyId"
  shows "toggleBlacklistStatus sink now d userId entryId b = (Inl NotFoundOrDenied, d)"
  using assms(1) getBlacklistEntry_none [OF assms]
  by (simp add: toggleBlacklistStatus_def)

lemma updateData_company_id: "company_id (updateData now input ex row) = company_id row"
  by (simp add: updateData_def Let_def split: option.splits)

lemma updateData_entry_id: "entry_id (updateData now input ex row) = entry_id row"
  by (simp add: updateData_def Let_def split: option.splits)

subsection \<open>Facts of the example store\<close>

lemma ex_company: "getUserCompanyId exampleDb 1 = Inr 10"
  by code_simp

lemma ex_distinct: "distinct (map entry_id (blacklistEntriesTable exampleDb))"
  by code_simp

lemma ex_mem: "entryB \<in> set (blacklistEntriesTable exampleDb)"
  by (simp add: exampleDb_def)

lemma ex_entryB: "company_id entryB \<noteq> 10" "entry_id entryB = 2"
  by (simp_all add: entryB_def)




lemma and_all_conditions_company:
  "and_all (conditions companyId filters) row \<Longrightarrow> company_id row = companyId"
  by (simp add: conditions_def split: if_splits)

lemma list_rows:
  assumes "getBlacklistEntries d userId filters paging = Inr r"
    and "getUserCompanyId d userId = Inr companyId"
  shows "set (entries r)
           \<subseteq> set (filter (and_all (conditions companyId filters)) (blacklistEntriesTable d))"
  using assms
  by (auto simp: getBlacklistEntries_def Let_def split: if_splits
        dest!: in_set_takeD in_set_dropD)

lemma list_only_own_company:
  assumes "getBlacklistEntries d userId filters paging = Inr r"
    and "getUserCompanyId d userId = Inr companyId"
  shows "\<forall>row \<in> set (entries r). company_id row = companyId"
  using list_rows [OF assms] by (auto dest: and_all_conditions_company)

lemma update_keeps_foreign:
  assumes c: "getUserCompanyId d userId = Inr companyId"
    and e: "e \<in> set (blacklistEntriesTable d)" "company_id e \<noteq> companyId"
  shows "e \<in> set (blacklistEntriesTable (snd (updateBlacklistEntry sink now d userId input)))
       \<and> fst (updateBlacklistEntry sink now d userId input) \<noteq> Inr e"
proof (cases "getBlacklistEntry d userId (u_id input)")
  case (Inl err)
  with c e show ?thesis by (simp add: updateBlacklistEntry_def)
next
  case (Inr found)
  show ?thesis
  proof (cases found)
    case None
    with Inr c e show ?thesis by (simp add: updateBlacklistEntry_def)
  next
    case (Some ex)
    let ?hit = "\<lambda>row. entry_id row = u_id input \<and> company_id row = companyId"
    have keep: "e \<in> set (map (\<lambda>row. if ?hit row then updateData now input ex row else row)
                            (blacklistEntriesTable d))"
      using e by (force simp: image_iff)
    from getBlacklistEntry_some [OF Inr [unfolded Some]] c obtain rest where
      f: "filter ?hit (blacklistEntriesTable d) = ex # rest" and ex: "company_id ex = companyId"
      by auto
    have ne: "updateData now input ex ex \<noteq> e"
      using e(2) ex updateData_company_id [of now input ex ex] by auto
    show ?thesis
      using c Inr Some f keep ne
      by (simp add: updateBlacklistEntry_def Let_def logActivity_tables)
  qed
qed

lemma toggle_keeps_foreign:
  assumes c: "getUserCompanyId d userId = Inr companyId"
    and e: "e \<in> set (blacklistEntriesTable d)" "company_id e \<noteq> companyId"
  shows "e \<in> set (blacklistEntriesTable
                    (snd (toggleBlacklistStatus sink now d userId entryId b)))
       \<and> fst (toggleBlacklistStatus sink now d userId entryId b) \<noteq> Inr e"
proof (cases "getBlacklistEntry d userId entryId")
  case (Inl err)
  with c e show ?thesis by (simp add: toggleBlacklistStatus_def)
next
  case (Inr found)
  show ?thesis
  proof (cases found)
    case None
    with Inr c e show ?thesis by (simp add: toggleBlacklistStatus_def)
  next
    case (Some ex)
    let ?hit = "\<lambda>row. entry_id row = entryId \<and> company_id row = companyId"
    let ?assign = "\<lambda>row. row\<lparr>is_blacklisted := b,
                              status := (if b then Active else Inactive),
                              updated_at := now\<rparr>"
    have keep: "e \<in> set (map (\<lambda>row. if ?hit row then ?assign row else row)
                            (blacklistEntriesTable d))"
      using e by (force simp: image_iff)
    from getBlacklistEntry_some [OF Inr [unfolded Some]] c obtain rest where
      f: "filter ?hit (blacklistEntriesTable d) = ex # rest" and ex: "company_id ex = companyId"
      by auto
    have "company_id (?assign ex) = companyId"
      using ex by simp
    with e(2) have ne: "?assign ex \<noteq> e"
      by auto
    show ?thesis
      using c Inr Some f keep ne
      by (simp add: toggleBlacklistStatus_def Let_def logActivity_tables)
  qed
qed

lemma delete_keeps_foreign:
  assumes c: "getUserCompanyId d userId = Inr companyId"
    and e: "e \<in> set (blacklistEntriesTable d)" "company_id e \<noteq> companyId"
  shows "e \<in> set (blacklistEntriesTable (snd (deleteBlacklistEntry sink d userId entryId)))"
  using c e
  by (auto simp: deleteBlacklistEntry_def Let_def logActivity_tables
        split: sum.splits option.splits)

text \<open>
  C2: let a principal's company resolve, in a store whose entry identifiers are unique, and
  let an entry belong to another company. Then no list call returns the entry, get on its
  identifier returns null, and update, delete and toggleStatus on its identifier fail with
  \<open>NotFoundOrDenied\<close> and return the store as it was. Moreover no get, update, delete or
  toggleStatus call of the principal, on any identifier, returns the entry or removes or
  changes it in the store. The handlers never read the admin flag, so this holds for every
  non-admin principal.
\<close>

theorem cross_company_isolation:
  assumes c: "getUserCompanyId d userId = Inr companyId"
    and pk: "distinct (map entry_id (blacklistEntriesTable d))"
    and e: "e \<in> set (blacklistEntriesTable d)" "company_id e \<noteq> companyId"
  shows "(\<forall>filters paging r.
            getBlacklistEntries d userId filters paging = Inr r \<longrightarrow> e \<notin> set (entries r))
       \<and> getBlacklistEntry d userId (entry_id e) = Inr None
       \<and> (\<forall>input. u_id input = entry_id e \<longrightarrow>
            updateBlacklistEntry sink now d userId input = (Inl NotFoundOrDenied, d))
       \<and> deleteBlacklistEntry sink d userId (entry_id e) = (Inl NotFoundOrDenied, d)
       \<and> (\<forall>b. toggleBlacklistStatus sink now d userId (entry_id e) b
                 = (Inl NotFoundOrDenied, d))
       \<and> (\<forall>entryId. getBlacklistEntry d userId entryId \<noteq> Inr (Some e))
       \<and> (\<forall>input.
            e \<in> set (blacklistEntriesTable (snd (updateBlacklistEntry sink now d userId input)))
            \<and> fst (updateBlacklistEntry sink now d userId input) \<noteq> Inr e)
       \<and> (\<forall>entryId.
            e \<in> set (blacklistEntriesTable (snd (deleteBlacklistEntry sink d userId entryId))))
       \<and> (\<forall>entryId b.
            e \<in> set (blacklistEntriesTable
                       (snd (toggleBlacklistStatus sink now d userId entryId b)))
            \<and> fst (toggleBlacklistStatus sink now d userId entryId b) \<noteq> Inr e)"
proof -
  note no_hit = other_company_no_hit [OF pk e]
  have l: "\<forall>filters paging r.
             getBlacklistEntries d userId filters paging = Inr r \<longrightarrow> e \<notin> set (entries r)"
    using list_only_own_company [OF _ c] e(2) by blast
  have g: "getBlacklistEntry d userId (entry_id e) = Inr None"
    by (rule getBlacklistEntry_none [OF c no_hit])
  have u: "\<forall>input. u_id input = entry_id e \<longrightarrow>
             updateBlacklistEntry sink now d userId input = (Inl NotFoundOrDenied, d)"
    using update_denied [OF c] no_hit by simp
  have dl: "deleteBlacklistEntry sink d userId (entry_id e) = (Inl NotFoundOrDenied, d)"
    by (rule delete_denied [OF c no_hit])
  have t: "\<forall>b. toggleBlacklistStatus sink now d userId (entry_id e) b
                 = (Inl NotFoundOrDenied, d)"
    using toggle_denied [OF c no_hit] by simp
  have g': "\<forall>entryId. getBlacklistEntry d userId entryId \<noteq> Inr (Some e)"
  proof (intro allI notI)
    fix entryId assume "getBlacklistEntry d userId entryId = Inr (Some e)"
    from getBlacklistEntry_some [OF this] c e(2) show False by auto
  qed
  show ?thesis
    using l g u dl t g' update_keeps_foreign [OF c e] delete_keeps_foreign [OF c e]
      toggle_keeps_foreign [OF c e]
    by blast
qed

theorem cross_company_isolation_witness:
  "getUserCompanyId exampleDb 1 = Inr 10
   \<and> distinct (map entry_id (blacklistEntriesTable exampleDb))
   \<and> entryB \<in> set (blacklistEntriesTable exampleDb) \<and> company_id entryB \<noteq> 10
   \<and> getBlacklistEntry exampleDb 1 2 = Inr None
   \<and> updateBlacklistEntry throwingSink 5000 exampleDb 1 (empty_patch 2)
       = (Inl NotFoundOrDenied, exampleDb)
   \<and> toggleBlacklistStatus throwingSink 5000 exampleDb 1 2 False
       = (Inl NotFoundOrDenied, exampleDb)
   \<and> entryB \<in> set (blacklistEntriesTable (snd (deleteBlacklistEntry throwingSink exampleDb 1 1)))"
proof -
  have u: "u_id (empty_patch 2) = entry_id entryB"
    by (simp add: empty_patch_def entryB_def)
  show ?thesis
    using cross_company_isolation [OF ex_company ex_distinct ex_mem ex_entryB(1),
        of throwingSink 5000]
      u ex_mem ex_entryB ex_company ex_distinct
    by metis
qed

section \<open>Update with an empty patch\<close>

lemma updateData_empty_patch:
  "updateData now (empty_patch entryId) ex row = row\<lparr>updated_at := now\<rparr>"
  by (simp add: updateData_def empty_patch_def)

lemma ex_get_entryA: "getBlacklistEntry exampleDb 1 1 = Inr (Some entryA)"
  by code_simp

text \<open>
  C8: for an entry that get returns to the principal, update with the input \<open>{id}\<close> returns
  the entry with \<open>updated_at\<close> set to the time of the call and every other field as it
  was (the score is not recomputed), and in the store the rows with that identifier in the
  principal's company get the new \<open>updated_at\<close> and nothing else changes.
\<close>

theorem update_empty_patch:
  assumes "getBlacklistEntry d userId entryId = Inr (Some e)"
  shows "fst (updateBlacklistEntry sink now d userId (empty_patch entryId))
           = Inr (e\<lparr>updated_at := now\<rparr>)
       \<and> blacklistEntriesTable
           (snd (updateBlacklistEntry sink now d userId (empty_patch entryId)))
           = map (\<lambda>row. if entry_id row = entryId \<and> company_id row = company_id e
                         then row\<lparr>updated_at := now\<rparr> else row)
               (blacklistEntriesTable d)"
proof -
  from getBlacklistEntry_some [OF assms] obtain companyId rest where
    c: "getUserCompanyId d userId = Inr companyId"
    and f: "filter (\<lambda>row. entry_id row = entryId \<and> company_id row = companyId)
              (blacklistEntriesTable d) = e # rest"
    and e: "company_id e = companyId"
    by blast
  have u: "u_id (empty_patch entryId) = entryId"
    by (simp add: empty_patch_def)
  show ?thesis
    using c assms f e
    by (simp add: updateBlacklistEntry_def u Let_def updateData_empty_patch
        logActivity_tables)
qed

theorem update_empty_patch_witness:
  "getBlacklistEntry exampleDb 1 1 = Inr (Some entryA)
   \<and> fst (updateBlacklistEntry insertActivityLog 5000 exampleDb 1 (empty_patch 1))
       = Inr (entryA\<lparr>updated_at := 5000\<rparr>)
   \<and> blacklistEntriesTable
       (snd (updateBlacklistEntry insertActivityLog 5000 exampleDb 1 (empty_patch 1)))
       = [entryA\<lparr>updated_at := 5000\<rparr>, entryB]"
proof -
  have "map (\<lambda>row. if entry_id row = 1 \<and> company_id row = company_id entryA
                    then row\<lparr>updated_at := 5000\<rparr> else row)
          (blacklistEntriesTable exampleDb)
        = [entryA\<lparr>updated_at := 5000\<rparr>, entryB]"
    by (simp add: exampleDb_def entryA_def entryB_def)
  then show ?thesis
    using update_empty_patch [OF ex_get_entryA, of insertActivityLog 5000] ex_get_entryA
    by simp
qed

section \<open>Failures of the activity log\<close>

text \<open>
  C9: for create, update, delete and toggleStatus, and any two behaviours of the
  activity-log sink (in particular one that inserts and one that throws), the value or error
  the operation returns is the same and so is the table of entries it leaves: what the sink
  does never reaches the caller.
\<close>

theorem log_failure_not_propagated:
  "fst (createBlacklistEntry sink1 now d userId cinput)
     = fst (createBlacklistEntry sink2 now d userId cinput)
   \<and> blacklistEntriesTable (snd (createBlacklistEntry sink1 now d userId cinput))
       = blacklistEntriesTable (snd (createBlacklistEntry sink2 now d userId cinput))
   \<and> fst (updateBlacklistEntry sink1 now d userId uinput)
       = fst (updateBlacklistEntry sink2 now d userId uinput)
   \<and> blacklistEntriesTable (snd (updateBlacklistEntry sink1 now d userId uinput))
       = blacklistEntriesTable (snd (updateBlacklistEntry sink2 now d userId uinput))
   \<and> fst (deleteBlacklistEntry sink1 d userId entryId)
       = fst (deleteBlacklistEntry sink2 d userId entryId)
   \<and> blacklistEntriesTable (snd (deleteBlacklistEntry sink1 d userId entryId))
       = blacklistEntriesTable (snd (deleteBlacklistEntry sink2 d userId entryId))
   \<and> fst (toggleBlacklistStatus sink1 now d userId entryId b)
       = fst (toggleBlacklistStatus sink2 now d userId entryId b)
   \<and> blacklistEntriesTable (snd (toggleBlacklistStatus sink1 now d userId entryId b))
       = blacklistEntriesTable (snd (toggleBlacklistStatus sink2 now d userId entryId b))"
proof (intro conjI)
  show "fst (createBlacklistEntry sink1 now d userId cinput)
          = fst (createBlacklistEntry sink2 now d userId cinput)"
    by (simp add: createBlacklistEntry_def Let_def split: sum.splits)
  show "blacklistEntriesTable (snd (createBlacklistEntry sink1 now d userId cinput))
          = blacklistEntriesTable (snd (createBlacklistEntry sink2 now d userId cinput))"
    by (simp add: createBlacklistEntry_def Let_def logActivity_tables split: sum.splits)
  show "fst (updateBlacklistEntry sink1 now d userId uinput)
          = fst (updateBlacklistEntry sink2 now d userId uinput)"
    by (simp add: updateBlacklistEntry_def Let_def
        split: sum.splits option.splits list.splits)
  show "blacklistEntriesTable (snd (updateBlacklistEntry sink1 now d userId uinput))
          = blacklistEntriesTable (snd (updateBlacklistEntry sink2 now d userId uinput))"
    by (simp add: updateBlacklistEntry_def Let_def logActivity_tables
        split: sum.splits option.splits list.splits)
  show "fst (deleteBlacklistEntry sink1 d userId entryId)
          = fst (deleteBlacklistEntry sink2 d userId entryId)"
    by (simp add: deleteBlacklistEntry_def Let_def split: sum.splits option.splits)
  show "blacklistEntriesTable (snd (deleteBlacklistEntry sink1 d userId entryId))
          = blacklistEntriesTable (snd (deleteBlacklistEntry sink2 d userId entryId))"
    by (simp add: deleteBlacklistEntry_def Let_def logActivity_tables
        split: sum.splits option.splits)
  show "fst (toggleBlacklistStatus sink1 now d userId entryId b)
          = fst (toggleBlacklistStatus sink2 now d userId entryId b)"
    by (simp add: toggleBlacklistStatus_def Let_def
        split: sum.splits option.splits list.splits)
  show "blacklistEntriesTable (snd (toggleBlacklistStatus sink1 now d userId entryId b))
          = blacklistEntriesTable (snd (toggleBlacklistStatus sink2 now d userId entryId b))"
    by (simp add: toggleBlacklistStatus_def Let_def logActivity_tables
        split: sum.splits option.splits list.splits)
qed

theorem log_failure_not_propagated_witness:
  "fst (deleteBlacklistEntry throwingSink exampleDb 1 1) = Inr \<lparr>success = True\<rparr>
   \<and> fst (deleteBlacklistEntry insertActivityLog exampleDb 1 1) = Inr \<lparr>success = True\<rparr>
   \<and> fst (toggleBlacklistStatus throwingSink 5000 exampleDb 1 1 False)
       = fst (toggleBlacklistStatus insertActivityLog 5000 exampleDb 1 1 False)
   \<and> activityLogsTable (snd (deleteBlacklistEntry throwingSink exampleDb 1 1)) = []
   \<and> length (activityLogsTable (snd (deleteBlacklistEntry insertActivityLog exampleDb 1 1)))
       = 1"
proof -
  have t: "fst (deleteBlacklistEntry throwingSink exampleDb 1 1) = Inr \<lparr>success = True\<rparr>"
    by code_simp
  have l0: "activityLogsTable (snd (deleteBlacklistEntry throwingSink exampleDb 1 1)) = []"
    by code_simp
  have l1: "length (activityLogsTable
                     (snd (deleteBlacklistEntry insertActivityLog exampleDb 1 1))) = 1"
    by code_simp
  show ?thesis
    using log_failure_not_propagated
            [of throwingSink 5000 exampleDb 1 exampleInput insertActivityLog
                "empty_patch 1" 1 False]
      t l0 l1
    by simp
qed

section \<open>Status at creation\<close>

lemma toggle_result:
  assumes "fst (toggleBlacklistStatus sink now d userId entryId b) = Inr e'"
  shows "is_blacklisted e' = b \<and> status e' = (if b then Active else Inactive)"
  using assms
  by (auto simp: toggleBlacklistStatus_def Let_def
        split: sum.splits option.splits list.splits)

text \<open>
  C10: for a principal whose company resolves, create returns and stores an entry whose
  status is \<open>active\<close> whatever the submission says, and whose \<open>is_blacklisted\<close> is the
  submission's (true when the submission left the key out). So a submission with
  \<open>is_blacklisted = false\<close> gives an entry that is not blacklisted and active, whereas an
  entry returned by toggleStatus always has status active when blacklisted and inactive when
  not.
\<close>

theorem create_status_active:
  assumes "getUserCompanyId d userId = Inr companyId"
  shows "(\<exists>e d'. createBlacklistEntry sink now d userId cinput = (Inr e, d')
            \<and> e \<in> set (blacklistEntriesTable d')
            \<and> status e = Active
            \<and> is_blacklisted e = c_is_blacklisted cinput
            \<and> (\<forall>raw. c_is_blacklisted cinput = createBlacklistEntrySchema_is_blacklisted raw
                  \<longrightarrow> is_blacklisted e = (case raw of None \<Rightarrow> True | Some v \<Rightarrow> v))
            \<and> (c_is_blacklisted cinput = False
                  \<longrightarrow> status e \<noteq> (if is_blacklisted e then Active else Inactive)))
       \<and> (\<forall>d0 user0 entryId b e'.
            fst (toggleBlacklistStatus sink now d0 user0 entryId b) = Inr e'
            \<longrightarrow> status e' = (if is_blacklisted e' then Active else Inactive))"
proof -
  have s: "\<And>raw. createBlacklistEntrySchema_is_blacklisted raw
                   = (case raw of None \<Rightarrow> True | Some v \<Rightarrow> v)"
    by (simp split: option.split)
  have "\<exists>e d'. createBlacklistEntry sink now d userId cinput = (Inr e, d')
            \<and> e \<in> set (blacklistEntriesTable d')
            \<and> status e = Active
            \<and> is_blacklisted e = c_is_blacklisted cinput"
    using assms by (simp add: createBlacklistEntry_def Let_def logActivity_tables)
  then show ?thesis
    using toggle_result s by fastforce
qed

theorem create_status_active_witness:
  "getUserCompanyId exampleDb 1 = Inr 10
   \<and> c_is_blacklisted exampleInput = False
   \<and> (\<exists>e d'. createBlacklistEntry throwingSink 3000 exampleDb 1 exampleInput = (Inr e, d')
         \<and> status e = Active \<and> is_blacklisted e = False)"
proof -
  have i: "c_is_blacklisted exampleInput = False"
    by (simp add: exampleInput_def)
  show ?thesis
    using create_status_active [OF ex_company, of throwingSink 3000 exampleInput] i ex_company
    by metis
qed

section \<open>Listing is scoped for every principal\<close>

lemma conditions_no_filter:
  "conditions companyId no_filter = [\<lambda>row. company_id row = companyId]"
  by (simp add: conditions_def no_filter_def)

lemma getUserCompanyId_users:
  "getUserCompanyId (d\<lparr>usersTable := us\<rparr>) userId = getUserCompanyId d userId"
  by (simp add: getUserCompanyId_def)

lemma list_ignores_users:
  "getBlacklistEntries (d\<lparr>usersTable := us\<rparr>) userId filters paging
     = getBlacklistEntries d userId filters paging"
  by (simp add: getBlacklistEntries_def getUserCompanyId_users split: sum.split)

lemma list_single:
  assumes "getUserCompanyId d userId = Inr companyId"
    and "filter (\<lambda>row. company_id row = companyId) (blacklistEntriesTable d) = [e]"
    and "page paging = 1" and "1 \<le> limit paging"
  shows "getBlacklistEntries d userId no_filter paging = Inr \<lparr>entries = [e], total = 1\<rparr>"
proof -
  have w: "and_all (conditions companyId no_filter) = (\<lambda>row. company_id row = companyId)"
    by (rule ext) (simp add: conditions_no_filter)
  obtain n where n: "nat (limit paging) = Suc n"
    using assms(4) by (cases "nat (limit paging)") auto
  show ?thesis
    using assms n by (simp add: getBlacklistEntries_def w Let_def)
qed

text \<open>
  C3, as stated, fails: in the example store two entries exist in two different companies;
  the administrator with a company of their own (user 3) lists with no filter and gets no
  entry and total 0, and the administrator with no company (user 4) gets
  \<open>NoCompanyError\<close>.
\<close>

theorem admin_list_is_scoped:
  "\<lparr>user_ident = 3, is_admin = True\<rparr> \<in> set (usersTable exampleDb)
   \<and> \<lparr>user_ident = 4, is_admin = True\<rparr> \<in> set (usersTable exampleDb)
   \<and> blacklistEntriesTable exampleDb = [entryA, entryB]
   \<and> company_id entryA \<noteq> company_id entryB
   \<and> getBlacklistEntries exampleDb 3 no_filter first_page = Inr \<lparr>entries = [], total = 0\<rparr>
   \<and> getBlacklistEntries exampleDb 4 no_filter first_page = Inl NoCompanyError"
  by code_simp

text \<open>
  C3, amended: for every principal whose company resolves, administrator or not, list is
  restricted to that company. The result does not depend on the users table, where the
  admin flag is kept; every entry returned has the principal's company; and when the
  principal's company has exactly one entry, as each owner's has when two entries exist in
  two different companies, list with no filter on a first page of at least one row returns
  that entry alone with total 1.
\<close>

theorem list_scoped_for_every_principal:
  assumes "getUserCompanyId d userId = Inr companyId"
  shows "(\<forall>us filters paging.
            getBlacklistEntries (d\<lparr>usersTable := us\<rparr>) userId filters paging
              = getBlacklistEntries d userId filters paging)
       \<and> (\<forall>filters paging r.
            getBlacklistEntries d userId filters paging = Inr r \<longrightarrow>
              (\<forall>row \<in> set (entries r). company_id row = companyId))
       \<and> (\<forall>e paging.
            filter (\<lambda>row. company_id row = companyId) (blacklistEntriesTable d) = [e]
            \<and> page paging = 1 \<and> 1 \<le> limit paging \<longrightarrow>
              getBlacklistEntries d userId no_filter paging
                = Inr \<lparr>entries = [e], total = 1\<rparr>)"
  using list_ignores_users list_only_own_company [OF _ assms] list_single [OF assms]
  by blast

theorem list_scoped_for_every_principal_witness:
  "getUserCompanyId exampleDb 1 = Inr 10
   \<and> filter (\<lambda>row. company_id row = 10) (blacklistEntriesTable exampleDb) = [entryA]
   \<and> page first_page = 1 \<and> 1 \<le> limit first_page
   \<and> getBlacklistEntries exampleDb 1 no_filter first_page
       = Inr \<lparr>entries = [entryA], total = 1\<rparr>
   \<and> getBlacklistEntries (exampleDb\<lparr>usersTable := []\<rparr>) 1 no_filter first_page
       = Inr \<lparr>entries = [entryA], total = 1\<rparr>"
proof -
  have f: "filter (\<lambda>row. company_id row = 10) (blacklistEntriesTable exampleDb) = [entryA]"
    by (simp add: exampleDb_def entryA_def entryB_def)
  have p: "page first_page = 1" "1 \<le> limit first_page"
    by (simp_all add: first_page_def)
  show ?thesis
    using list_scoped_for_every_principal [OF ex_company] f p ex_company
    by metis
qed

section \<open>Score after an update\<close>

text \<open>
  When the patch changes \<open>reason\<close>, \<open>id_document_urls\<close> or \<open>face_image_url\<close> and does
  not set \<open>face_image_url\<close> to \<open>null\<close>, the entry that update returns has the score of its
  own reason, documents and face image.
\<close>

lemma update_recomputes_score:
  assumes "getBlacklistEntry d userId (u_id input) = Inr (Some e)"
    and "is_defined (u_reason input) \<or> is_defined (u_id_document_urls input)
           \<or> is_defined (u_face_image_url input)"
    and "u_face_image_url input \<noteq> Some None"
    and "fst (updateBlacklistEntry sink now d userId input) = Inr e'"
  shows "blacklist_score e'
           = calculateBlacklistScore (reason e') (0 < length (id_document_urls e'))
               (Boolean (face_image_url e'))"
proof -
  from getBlacklistEntry_some [OF assms(1)] obtain companyId rest where
    c: "getUserCompanyId d userId = Inr companyId"
    and f: "filter (\<lambda>row. entry_id row = u_id input \<and> company_id row = companyId)
              (blacklistEntriesTable d) = e # rest"
    by blast
  have e': "e' = updateData now input e e"
    using assms(1,4) c f by (simp add: updateBlacklistEntry_def Let_def)
  show ?thesis
    unfolding e' using assms(2,3)
    by (cases "u_face_image_url input"; cases "u_reason input";
        cases "u_id_document_urls input")
       (auto simp: updateData_def Let_def split: option.splits)
qed

text \<open>
  C4 at a failing input: entry 1 of the example store has a face image, no documents and the
  reason "Fraud", with score 90. The patch \<open>{id: 1, face_image_url: null}\<close> stores the
  entry without face image and with score 90, whereas the score of its reason, documents
  and face image after the patch is 80.
\<close>

theorem update_null_face_image_keeps_score:
  "fst (updateBlacklistEntry insertActivityLog 5000 exampleDb 1
         ((empty_patch 1)\<lparr>u_face_image_url := Some None\<rparr>))
     = Inr (entryA\<lparr>face_image_url := None, updated_at := 5000\<rparr>)
   \<and> blacklist_score (entryA\<lparr>face_image_url := None, updated_at := 5000\<rparr>) = 90
   \<and> calculateBlacklistScore (reason entryA) (0 < length (id_document_urls entryA))
       (Boolean None) = 80"
  by code_simp

section \<open>Free-text search\<close>


















end
